theory Spec2Isabelle
  imports Main "HOL-Library.Multiset"
begin

section \<open>Python values and string primitives\<close>

text \<open>
  A Python \<open>str\<close> is modelled as the list of its code points, restricted to code points
  below 256, so that one \<open>char\<close> is one code point. The primitives below are the
  built-in string methods the analyzer calls: \<open>str.lower\<close>, \<open>str.strip\<close>,
  \<open>str.split\<close>, \<open>str.replace\<close>, the \<open>in\<close> operator and \<open>int\<close>.
\<close>

definition lower_char :: "char \<Rightarrow> char" where
  "lower_char c =
     (let n = (of_char c :: nat)
      in if (65 \<le> n \<and> n \<le> 90) \<or> (192 \<le> n \<and> n \<le> 222 \<and> n \<noteq> 215)
         then char_of (n + 32) else c)"

definition lower :: "string \<Rightarrow> string" where
  "lower s = map lower_char s"

definition is_space :: "char \<Rightarrow> bool" where
  "is_space c =
     (let n = (of_char c :: nat)
      in (9 \<le> n \<and> n \<le> 13) \<or> (28 \<le> n \<and> n \<le> 32) \<or> n = 133 \<or> n = 160)"

definition strip :: "string \<Rightarrow> string" where
  "strip s = rev (dropWhile is_space (rev (dropWhile is_space s)))"

fun starts_with :: "string \<Rightarrow> string \<Rightarrow> bool" where
  "starts_with s [] = True"
| "starts_with [] (p # ps) = False"
| "starts_with (c # cs) (p # ps) = (c = p \<and> starts_with cs ps)"

text \<open>\<open>contains s sub\<close> is Python's \<open>sub in s\<close>.\<close>

fun contains :: "string \<Rightarrow> string \<Rightarrow> bool" where
  "contains [] sub = (sub = [])"
| "contains (c # cs) sub = (starts_with (c # cs) sub \<or> contains cs sub)"

text \<open>
  \<open>replace s old new\<close> is \<open>s.replace(old, new)\<close>: the leftmost occurrences of
  \<open>old\<close>, not overlapping, are replaced from left to right. With an empty \<open>old\<close>
  Python puts \<open>new\<close> before every character and at the end.
\<close>

function replace :: "string \<Rightarrow> string \<Rightarrow> string \<Rightarrow> string" where
  "replace [] old new = (if old = [] then new else [])"
| "replace (c # cs) old new =
     (if old = [] then new @ c # replace cs old new
      else if starts_with (c # cs) old
           then new @ replace (drop (length old) (c # cs)) old new
           else c # replace cs old new)"
  by pat_completeness auto
termination
  by (relation "measure (\<lambda>(s, old, new). length s)") (auto simp: neq_Nil_conv)


text \<open>
  \<open>int(s)\<close> for a string, in base 10: surrounding whitespace is stripped, one sign is
  allowed, then decimal digits in which single underscores may separate digits. Anything
  else is a \<open>ValueError\<close>, here \<open>None\<close>, as is a literal of more than
  \<open>int_max_str_digits\<close> digits (the interpreter's default limit). The whitespace
  \<open>int\<close> strips is that of \<open>str.strip\<close> without the four separators 28 to 31.
\<close>

definition is_int_space :: "char \<Rightarrow> bool" where
  "is_int_space c =
     (let n = (of_char c :: nat)
      in (9 \<le> n \<and> n \<le> 13) \<or> n = 32 \<or> n = 133 \<or> n = 160)"

definition is_digit :: "char \<Rightarrow> bool" where
  "is_digit c = (let n = (of_char c :: nat) in 48 \<le> n \<and> n \<le> 57)"

definition digit_val :: "char \<Rightarrow> int" where
  "digit_val c = int (of_char c) - 48"

definition int_max_str_digits :: nat where
  "int_max_str_digits = 4300"

fun digits_ok :: "string \<Rightarrow> bool" where
  "digits_ok [] = False"
| "digits_ok [c] = is_digit c"
| "digits_ok (c # d # ds) =
     (if is_digit c then digits_ok (d # ds)
      else c = CHR ''_'' \<and> is_digit d \<and> digits_ok (d # ds))"

definition digits_value :: "string \<Rightarrow> int" where
  "digits_value ds = foldl (\<lambda>acc c. 10 * acc + digit_val c) 0 (filter is_digit ds)"

definition parse_digits :: "string \<Rightarrow> int option" where
  "parse_digits ds =
     (if ds \<noteq> [] \<and> is_digit (hd ds) \<and> digits_ok ds
         \<and> length (filter is_digit ds) \<le> int_max_str_digits
      then Some (digits_value ds) else None)"

definition int_of_str :: "string \<Rightarrow> int option" where
  "int_of_str s =
     (case rev (dropWhile is_int_space (rev (dropWhile is_int_space s))) of
        [] \<Rightarrow> None
      | c # cs \<Rightarrow>
          if c = CHR ''-'' then map_option uminus (parse_digits cs)
          else if c = CHR ''+'' then parse_digits cs
          else parse_digits (c # cs))"

section \<open>models.py\<close>

text \<open>
  A \<open>datetime\<close> is naive (a wall-clock reading, in microseconds) or aware (an instant in
  microseconds of UTC, and its UTC offset). Ordering two aware values compares their
  instants; ordering a naive value with an aware one raises \<open>TypeError\<close>.
\<close>

datatype pydatetime = Naive int | Aware int int

datatype error = RuntimeError | TypeError | SourceUnavailable | DocumentNotFound | DocumentMalformed

fun instant :: "pydatetime \<Rightarrow> int" where
  "instant (Naive t) = t"
| "instant (Aware t off) = t"

fun is_naive :: "pydatetime \<Rightarrow> bool" where
  "is_naive (Naive t) = True"
| "is_naive (Aware t off) = False"

fun dt_lt :: "pydatetime \<Rightarrow> pydatetime \<Rightarrow> error + bool" where
  "dt_lt (Naive a) (Naive b) = Inr (a < b)"
| "dt_lt (Aware a oa) (Aware b ob) = Inr (a < b)"
| "dt_lt (Naive a) (Aware b ob) = Inl TypeError"
| "dt_lt (Aware a oa) (Naive b) = Inl TypeError"

fun dt_eq :: "pydatetime \<Rightarrow> pydatetime \<Rightarrow> bool" where
  "dt_eq (Naive a) (Naive b) = (a = b)"
| "dt_eq (Aware a oa) (Aware b ob) = (a = b)"
| "dt_eq (Naive a) (Aware b ob) = False"
| "dt_eq (Aware a oa) (Naive b) = False"

record SecurityEvent =
  time_created :: pydatetime
  event_id :: int
  level :: string
  provider :: string
  machine_name :: string
  message :: string
  category :: string

record EventRule =
  rule_category :: string
  severity :: string

definition EVENT_RULES :: "(int \<times> EventRule) list" where
  "EVENT_RULES =
    [(4624, \<lparr>rule_category = ''Logon success'', severity = ''normal''\<rparr>),
     (4625, \<lparr>rule_category = ''Logon failure'', severity = ''critical''\<rparr>),
     (4634, \<lparr>rule_category = ''Logoff'', severity = ''normal''\<rparr>),
     (4647, \<lparr>rule_category = ''Logoff'', severity = ''normal''\<rparr>),
     (4672, \<lparr>rule_category = ''Privilege assigned'', severity = ''normal''\<rparr>),
     (4688, \<lparr>rule_category = ''Process created'', severity = ''suspicious''\<rparr>),
     (4689, \<lparr>rule_category = ''Process exited'', severity = ''info''\<rparr>),
     (4720, \<lparr>rule_category = ''User account change'', severity = ''suspicious''\<rparr>),
     (4722, \<lparr>rule_category = ''User account change'', severity = ''suspicious''\<rparr>),
     (4723, \<lparr>rule_category = ''Password change attempt'', severity = ''suspicious''\<rparr>),
     (4724, \<lparr>rule_category = ''Password change attempt'', severity = ''suspicious''\<rparr>),
     (4725, \<lparr>rule_category = ''User account change'', severity = ''suspicious''\<rparr>),
     (4726, \<lparr>rule_category = ''User account change'', severity = ''suspicious''\<rparr>),
     (4732, \<lparr>rule_category = ''Group membership change'', severity = ''suspicious''\<rparr>),
     (4733, \<lparr>rule_category = ''Group membership change'', severity = ''suspicious''\<rparr>),
     (4768, \<lparr>rule_category = ''Kerberos authentication'', severity = ''info''\<rparr>),
     (4769, \<lparr>rule_category = ''Kerberos authentication'', severity = ''info''\<rparr>),
     (4770, \<lparr>rule_category = ''Kerberos authentication'', severity = ''info''\<rparr>),
     (4771, \<lparr>rule_category = ''Kerberos authentication'', severity = ''info''\<rparr>),
     (4798, \<lparr>rule_category = ''User enumeration'', severity = ''suspicious''\<rparr>),
     (4799, \<lparr>rule_category = ''User enumeration'', severity = ''suspicious''\<rparr>)]"

definition IMPORTANT_EVENT_IDS :: "int set" where
  "IMPORTANT_EVENT_IDS = set (map fst EVENT_RULES)"

definition categorize_event :: "int \<Rightarrow> string" where
  "categorize_event eid =
     (case map_of EVENT_RULES eid of
        Some rule \<Rightarrow> rule_category rule
      | None \<Rightarrow> ''Other'')"

text \<open>
  The interpreter and the host are a record of parameters: the platform name, whether
  pywin32 could be imported, the live log reader, the XML parser,
  \<open>datetime.fromisoformat\<close> (\<open>None\<close> is its \<open>ValueError\<close>) and the local UTC offset
  at the Unix epoch, which fixes the naive value of \<open>datetime.fromtimestamp(0)\<close>.
\<close>

datatype pyval = PyNone | PyBool bool | PyInt int | PyStr string

datatype time_value = TimeStr string | TimeStruct "string option" | TimeOther

record raw_event =
  raw_Id :: pyval
  raw_TimeCreated :: time_value
  raw_LevelDisplayName :: "string option"
  raw_ProviderName :: "string option"
  raw_MachineName :: "string option"
  raw_Message :: "string option"

type_synonym xml_element = "(string \<times> string) list"

record env =
  platform_system :: string
  pywin32_present :: bool
  read_event_log :: "string \<Rightarrow> int \<Rightarrow> error + raw_event list"
  et_parse :: "string \<Rightarrow> error + xml_element list"
  fromisoformat :: "string \<Rightarrow> pydatetime option"
  epoch_utcoffset :: int

definition fromtimestamp0 :: "env \<Rightarrow> pydatetime" where
  "fromtimestamp0 e = Naive (epoch_utcoffset e)"

definition parse_time :: "env \<Rightarrow> string option \<Rightarrow> pydatetime" where
  "parse_time e v =
     (case v of
        None \<Rightarrow> fromtimestamp0 e
      | Some s \<Rightarrow>
          if s = [] then fromtimestamp0 e
          else (case fromisoformat e (replace s ''Z'' ''+00:00'') of
                  Some d \<Rightarrow> d
                | None \<Rightarrow> fromtimestamp0 e))"



definition normalize_level_name :: "string \<Rightarrow> string" where
  "normalize_level_name l =
     (let v = lower (strip l)
      in if v \<in> {''debug'', ''verbose'', ''trace''} then ''debug''
         else if v \<in> {''information'', ''info''} then ''info''
         else if v \<in> {''warning'', ''warn''} then ''warning''
         else if v \<in> {''error'', ''err''} then ''error''
         else if v \<in> {''critical'', ''fatal''} then ''critical''
         else ''info'')"


section \<open>sources.py\<close>

text \<open>
  A raw event is the dictionary \<open>get_raw_events\<close> yields, read with \<open>raw.get\<close>: a
  missing key and a null value are both \<open>None\<close>. The id holds any scalar; the time
  field is a string, a dictionary whose \<open>DateTime\<close> entry is a string or missing, or
  anything else; the four text fields hold a string or nothing. Floats are outside the
  model. An XML \<open>Event\<close> element is the list of its children, tag and text, and
  \<open>findtext\<close> returns the text of the first child with the tag.
\<close>

definition is_windows :: "env \<Rightarrow> bool" where
  "is_windows e = (lower (platform_system e) = ''windows'')"

text \<open>
  The reading loop over the Windows API is the parameter \<open>read_event_log\<close>; the two
  guards before it are those of the source.
\<close>

definition get_raw_events :: "env \<Rightarrow> string \<Rightarrow> int \<Rightarrow> error + raw_event list" where
  "get_raw_events e log_name max_events =
     (if \<not> is_windows e then Inl RuntimeError
      else if \<not> pywin32_present e then Inl RuntimeError
      else read_event_log e log_name max_events)"

text \<open>\<open>py_int v\<close> is \<open>int(v)\<close>; \<open>None\<close> is its \<open>TypeError\<close> or \<open>ValueError\<close>.\<close>

fun py_int :: "pyval \<Rightarrow> int option" where
  "py_int PyNone = None"
| "py_int (PyBool b) = Some (if b then 1 else 0)"
| "py_int (PyInt n) = Some n"
| "py_int (PyStr s) = int_of_str s"

fun time_created_raw :: "time_value \<Rightarrow> string option" where
  "time_created_raw (TimeStr s) = Some s"
| "time_created_raw (TimeStruct d) = d"
| "time_created_raw TimeOther = None"

definition or_empty :: "string option \<Rightarrow> string" where
  "or_empty v = (case v of None \<Rightarrow> [] | Some s \<Rightarrow> s)"

definition normalize_event :: "env \<Rightarrow> raw_event \<Rightarrow> SecurityEvent option" where
  "normalize_event e raw =
     (case py_int (raw_Id raw) of
        None \<Rightarrow> None
      | Some eid \<Rightarrow>
          Some \<lparr>time_created = parse_time e (time_created_raw (raw_TimeCreated raw)),
                event_id = eid,
                level = or_empty (raw_LevelDisplayName raw),
                provider = or_empty (raw_ProviderName raw),
                machine_name = or_empty (raw_MachineName raw),
                message = replace (replace (or_empty (raw_Message raw))
                                     [CHR 0x0D, CHR 0x0A] '' '') [CHR 0x0A] '' '',
                category = categorize_event eid\<rparr>)"

definition ids_filter :: "bool \<Rightarrow> int list option \<Rightarrow> int set option" where
  "ids_filter important_only event_ids =
     (if important_only \<and> event_ids \<noteq> None \<and> event_ids \<noteq> Some []
      then Some (set (case event_ids of Some ids \<Rightarrow> ids | None \<Rightarrow> []))
      else if important_only then Some IMPORTANT_EVENT_IDS
      else None)"

definition is_system_logon :: "SecurityEvent \<Rightarrow> bool" where
  "is_system_logon n =
     (event_id n = 4624 \<and> contains (lower (message n)) ''s-1-5-18 system nt authority'')"

definition in_filter :: "int set option \<Rightarrow> SecurityEvent \<Rightarrow> bool" where
  "in_filter f n = (case f of None \<Rightarrow> True | Some ids \<Rightarrow> event_id n \<in> ids)"

text \<open>The loop of \<open>collect_events\<close> over the raw events, in retrieval order.\<close>

fun select_events :: "env \<Rightarrow> int set option \<Rightarrow> bool \<Rightarrow> raw_event list \<Rightarrow> SecurityEvent list" where
  "select_events e f hide [] = []"
| "select_events e f hide (raw # raws) =
     (case normalize_event e raw of
        None \<Rightarrow> select_events e f hide raws
      | Some n \<Rightarrow>
          if hide \<and> is_system_logon n then select_events e f hide raws
          else if \<not> in_filter f n then select_events e f hide raws
          else n # select_events e f hide raws)"

text \<open>
  \<open>events.sort(key=lambda e: e.time_created, reverse=True)\<close>. The sort compares the keys
  with \<open><\<close>, and every element of a list of two or more takes part in a chain of
  comparisons that links it to all others: a list holding both a naive and an aware key
  raises \<open>TypeError\<close>. Otherwise the result is in descending order of the keys and the
  sort is stable, also under \<open>reverse=True\<close>.
\<close>

definition mixed_keys :: "SecurityEvent list \<Rightarrow> bool" where
  "mixed_keys evs =
     ((\<exists>a \<in> set evs. is_naive (time_created a)) \<and> (\<exists>b \<in> set evs. \<not> is_naive (time_created b)))"

definition sort_by_time_desc :: "SecurityEvent list \<Rightarrow> error + SecurityEvent list" where
  "sort_by_time_desc evs =
     (if mixed_keys evs then Inl TypeError
      else Inr (sort_key (\<lambda>e. - instant (time_created e)) evs))"

definition collect_events ::
  "env \<Rightarrow> string \<Rightarrow> int \<Rightarrow> bool \<Rightarrow> int list option \<Rightarrow> bool \<Rightarrow> error + SecurityEvent list" where
  "collect_events e log_name max_events important_only event_ids hide_system_logons =
     (if \<not> is_windows e then Inl RuntimeError
      else (case get_raw_events e log_name max_events of
              Inl err \<Rightarrow> Inl err
            | Inr raw_events \<Rightarrow>
                sort_by_time_desc
                  (select_events e (ids_filter important_only event_ids)
                     hide_system_logons raw_events)))"

definition findtext :: "xml_element \<Rightarrow> string \<Rightarrow> string option" where
  "findtext element tag = map_of element tag"

text \<open>The loop of \<open>load_events_from_demo_xml\<close> over the \<open>Event\<close> elements of the root.\<close>

fun demo_events :: "env \<Rightarrow> xml_element list \<Rightarrow> SecurityEvent list" where
  "demo_events e [] = []"
| "demo_events e (element # elements) =
     (case (case findtext element ''Id'' of
              None \<Rightarrow> None
            | Some t \<Rightarrow> int_of_str t) of
        None \<Rightarrow> demo_events e elements
      | Some eid \<Rightarrow>
          \<lparr>time_created = parse_time e (findtext element ''TimeCreated''),
           event_id = eid,
           level = or_empty (findtext element ''Level''),
           provider = or_empty (findtext element ''Provider''),
           machine_name = or_empty (findtext element ''MachineName''),
           message = or_empty (findtext element ''Message''),
           category = categorize_event eid\<rparr> # demo_events e elements)"

text \<open>
  \<open>et_parse\<close> is \<open>ET.parse(path).getroot().findall("Event")\<close>, or the error of a missing
  or malformed document.
\<close>

definition load_events_from_demo_xml :: "env \<Rightarrow> string \<Rightarrow> error + SecurityEvent list" where
  "load_events_from_demo_xml e path =
     (case et_parse e path of
        Inl err \<Rightarrow> Inl err
      | Inr elements \<Rightarrow> sort_by_time_desc (demo_events e elements))"

section \<open>Sample hosts\<close>

text \<open>
  Concrete instances evaluate the functions on a host whose \<open>datetime.fromisoformat\<close> is
  given on four strings, with the values Python computes for them, and rejects the rest.
\<close>

definition sample_iso :: "string \<Rightarrow> pydatetime option" where
  "sample_iso s =
     (if s = ''2024-01-01T00:00:00+00:00'' then Some (Aware 1704067200000000 0)
      else if s = ''2024-01-01T00:00:05+00:00'' then Some (Aware 1704067205000000 0)
      else if s = ''2024-01-01T01:00:05+01:00'' then Some (Aware 1704067205000000 3600000000)
      else if s = ''2024-01-01T00:00:09'' then Some (Naive 1704067209000000)
      else None)"

definition sample_env :: "raw_event list \<Rightarrow> xml_element list \<Rightarrow> env" where
  "sample_env raws elements =
     \<lparr>platform_system = ''Windows'',
      pywin32_present = True,
      read_event_log = (\<lambda>log_name max_events. Inr raws),
      et_parse = (\<lambda>path. Inr elements),
      fromisoformat = sample_iso,
      epoch_utcoffset = 0\<rparr>"

definition mk_raw :: "pyval \<Rightarrow> time_value \<Rightarrow> string \<Rightarrow> raw_event" where
  "mk_raw i t m =
     \<lparr>raw_Id = i, raw_TimeCreated = t, raw_LevelDisplayName = Some ''Information'',
      raw_ProviderName = Some ''Microsoft-Windows-Security-Auditing'',
      raw_MachineName = Some ''HOST'', raw_Message = Some m\<rparr>"

definition mk_event :: "pydatetime \<Rightarrow> int \<Rightarrow> string \<Rightarrow> string \<Rightarrow> SecurityEvent" where
  "mk_event t i m c =
     \<lparr>time_created = t, event_id = i, level = ''Information'',
      provider = ''Microsoft-Windows-Security-Auditing'',
      machine_name = ''HOST'', message = m, category = c\<rparr>"

text \<open>Three records, the last two at the same instant under different offsets.\<close>

definition tie_raws :: "raw_event list" where
  "tie_raws =
     [mk_raw (PyInt 4624) (TimeStr ''2024-01-01T00:00:00Z'') ''first'',
      mk_raw (PyInt 4625) (TimeStr ''2024-01-01T00:00:05Z'') ''second'',
      mk_raw (PyStr ''4688'') (TimeStruct (Some ''2024-01-01T01:00:05+01:00'')) ''third'']"

definition demo_elements :: "xml_element list" where
  "demo_elements =
     [[(''TimeCreated'', ''2024-01-01T00:00:00Z''), (''Id'', ''4624''),
       (''Level'', ''Information''), (''Message'', ''logon'')],
      [(''TimeCreated'', ''2024-01-01T00:00:05Z''), (''Id'', ''none'')],
      [(''TimeCreated'', ''2024-01-01T00:00:05Z''), (''Id'', ''4688'')]]"

text \<open>Three records at one time with the ids 4624, 4625 and 9999.\<close>

definition id_raws :: "raw_event list" where
  "id_raws =
     [mk_raw (PyInt 4624) (TimeStr ''2024-01-01T00:00:00Z'') ''a'',
      mk_raw (PyInt 4625) (TimeStr ''2024-01-01T00:00:00Z'') ''b'',
      mk_raw (PyInt 9999) (TimeStr ''2024-01-01T00:00:00Z'') ''c'']"

text \<open>
  A Local System logon as the live reader joins its inserts, the same message under the
  id 4625, and a logon of another account.
\<close>

definition logon_raws :: "raw_event list" where
  "logon_raws =
     [mk_raw (PyInt 4624) (TimeStr ''2024-01-01T00:00:00Z'') ''S-1-5-18 SYSTEM NT AUTHORITY 0x3e7'',
      mk_raw (PyInt 4625) (TimeStr ''2024-01-01T00:00:00Z'') ''S-1-5-18 SYSTEM NT AUTHORITY 0x3e7'',
      mk_raw (PyInt 4624) (TimeStr ''2024-01-01T00:00:00Z'') ''S-1-5-21-1004 alice CORP 0x5f2'']"

text \<open>The signature \<open>S-1-5-18 NT AUTHORITY\SYSTEM\<close>, with its backslash.\<close>

definition nt_authority_system :: string where
  "nt_authority_system = ''S-1-5-18 NT AUTHORITY'' @ [CHR 0x5C] @ ''SYSTEM''"


definition multiline_elements :: "xml_element list" where
  "multiline_elements =
     [[(''Id'', ''4624''), (''Message'', [CHR ''a'', CHR 0x0A, CHR ''b'', CHR 0x0A, CHR ''c''])]]"

section \<open>The level normalizer and the id list\<close>

text \<open>
  C9. \<open>normalize_level_name\<close> is total: it lower-cases and trims its input, maps each
  member of the five synonym sets to the canonical level of the set, and returns
  \<open>info\<close> for every other input, the empty string included; its result is always one of
  the five canonical levels.
\<close>

theorem normalize_level_name_total:
  "(lower (strip l) \<in> {''debug'', ''verbose'', ''trace''} \<longrightarrow> normalize_level_name l = ''debug'')
   \<and> (lower (strip l) \<in> {''information'', ''info''} \<longrightarrow> normalize_level_name l = ''info'')
   \<and> (lower (strip l) \<in> {''warning'', ''warn''} \<longrightarrow> normalize_level_name l = ''warning'')
   \<and> (lower (strip l) \<in> {''error'', ''err''} \<longrightarrow> normalize_level_name l = ''error'')
   \<and> (lower (strip l) \<in> {''critical'', ''fatal''} \<longrightarrow> normalize_level_name l = ''critical'')
   \<and> (lower (strip l) \<notin> {''debug'', ''verbose'', ''trace'', ''information'', ''info'',
                            ''warning'', ''warn'', ''error'', ''err'', ''critical'', ''fatal''}
        \<longrightarrow> normalize_level_name l = ''info'')
   \<and> normalize_level_name [] = ''info''
   \<and> normalize_level_name l \<in> {''debug'', ''info'', ''warning'', ''error'', ''critical''}"
  by (auto simp: normalize_level_name_def Let_def strip_def lower_def)


theorem normalize_level_name_total_witness:
  "lower (strip '' Warn '') \<in> {''warning'', ''warn''}
   \<and> normalize_level_name '' Warn '' = ''warning''
   \<and> lower (strip ''FATAL'') \<in> {''critical'', ''fatal''}
   \<and> normalize_level_name ''FATAL'' = ''critical''
   \<and> lower (strip ''notice'') \<notin> {''debug'', ''verbose'', ''trace'', ''information'', ''info'',
                            ''warning'', ''warn'', ''error'', ''err'', ''critical'', ''fatal''}
   \<and> normalize_level_name ''notice'' = ''info''"
proof -
  have h1: "lower (strip '' Warn '') \<in> {''warning'', ''warn''}" by code_simp
  have h2: "lower (strip ''FATAL'') \<in> {''critical'', ''fatal''}" by code_simp
  have h3: "lower (strip ''notice'') \<notin> {''debug'', ''verbose'', ''trace'', ''information'', ''info'',
                            ''warning'', ''warn'', ''error'', ''err'', ''critical'', ''fatal''}" by code_simp
  have c1: "normalize_level_name '' Warn '' = ''warning''"
    by (rule normalize_level_name_total [of "'' Warn ''", THEN conjunct2, THEN conjunct2,
          THEN conjunct1, THEN mp, OF h1])
  have c2: "normalize_level_name ''FATAL'' = ''critical''"
    by (rule normalize_level_name_total [of "''FATAL''", THEN conjunct2, THEN conjunct2,
          THEN conjunct2, THEN conjunct2, THEN conjunct1, THEN mp, OF h2])
  have c3: "normalize_level_name ''notice'' = ''info''"
    by (rule normalize_level_name_total [of "''notice''", THEN conjunct2, THEN conjunct2,
          THEN conjunct2, THEN conjunct2, THEN conjunct2, THEN conjunct1, THEN mp, OF h3])
  show ?thesis by (intro conjI h1 h2 h3 c1 c2 c3)
qed






section \<open>The record normalizer\<close>



lemma replace_char_absent:
  "c \<notin> set new \<Longrightarrow> c \<notin> set (replace s [c] new)"
  by (induction s) simp_all

lemma normalize_event_message:
  "normalize_event e raw = Some ev \<Longrightarrow>
     message ev = replace (replace (or_empty (raw_Message raw)) [CHR 0x0D, CHR 0x0A] '' '')
                    [CHR 0x0A] '' ''"
  by (auto simp: normalize_event_def split: option.splits)

lemma normalize_event_message_no_newline:
  assumes "normalize_event e raw = Some ev"
  shows "CHR 0x0A \<notin> set (message ev)"
proof -
  have "CHR 0x0A \<notin> set '' ''" by simp
  then show ?thesis
    unfolding normalize_event_message [OF assms] by (rule replace_char_absent)
qed





section \<open>The collection pipeline\<close>

text \<open>
  The loop keeps the normalized events that pass the id filter and are not suppressed;
  the two filters act independently of each other.
\<close>

lemma in_filter_None: "in_filter None n"
  by (simp add: in_filter_def)

lemma select_events_in_filter:
  "select_events e f hide raws = filter (in_filter f) (select_events e None hide raws)"
  by (induction raws) (auto simp: in_filter_None split: option.splits)

lemma select_events_hide:
  "select_events e f True raws = filter (\<lambda>n. \<not> is_system_logon n) (select_events e f False raws)"
  by (induction raws) (simp_all split: option.splits)

lemma select_events_plain:
  "select_events e None False raws = List.map_filter (normalize_event e) raws"
  by (induction raws) (simp_all add: in_filter_None List.map_filter_simps split: option.splits)

lemma sort_by_time_desc_Inr:
  "sort_by_time_desc evs = Inr out \<Longrightarrow>
     \<not> mixed_keys evs \<and> out = sort_key (\<lambda>x. - instant (time_created x)) evs"
  by (simp add: sort_by_time_desc_def split: if_splits)

lemma dt_lt_same_kind: "is_naive a = is_naive b \<Longrightarrow> dt_lt a b = Inr (instant a < instant b)"
  by (cases a; cases b) simp_all

lemma dt_eq_iff: "dt_eq a t \<longleftrightarrow> - instant a = - instant t \<and> is_naive a = is_naive t"
  by (cases a; cases t) simp_all

lemma same_kind:
  "\<not> mixed_keys evs \<Longrightarrow> a \<in> set evs \<Longrightarrow> b \<in> set evs \<Longrightarrow>
     is_naive (time_created a) = is_naive (time_created b)"
  unfolding mixed_keys_def by blast

lemma sort_key_descending:
  assumes "\<not> mixed_keys evs"
  shows "sorted_wrt (\<lambda>a b. dt_lt (time_created a) (time_created b) = Inr False)
           (sort_key (\<lambda>x. - instant (time_created x)) evs)"
proof -
  let ?f = "\<lambda>x. - instant (time_created x)"
  have "sorted (map ?f (sort_key ?f evs))"
    by (rule sorted_sort_key)
  then have s: "sorted_wrt (\<lambda>a b. ?f a \<le> ?f b) (sort_key ?f evs)"
    by (simp only: sorted_map)
  show ?thesis
  proof (rule sorted_wrt_mono_rel [OF _ s])
    fix a b
    assume "a \<in> set (sort_key ?f evs)" and "b \<in> set (sort_key ?f evs)" and le: "?f a \<le> ?f b"
    then have "a \<in> set evs" and "b \<in> set evs"
      by simp_all
    then have "is_naive (time_created a) = is_naive (time_created b)"
      by (rule same_kind [OF assms])
    then show "dt_lt (time_created a) (time_created b) = Inr False"
      using le by (simp add: dt_lt_same_kind)
  qed
qed

lemma sort_key_keeps_ties:
  "filter (\<lambda>x. dt_eq (time_created x) t) (sort_key (\<lambda>x. - instant (time_created x)) evs)
     = filter (\<lambda>x. dt_eq (time_created x) t) evs"
proof -
  let ?f = "\<lambda>x. - instant (time_created x)"
  let ?Q = "\<lambda>x. is_naive (time_created x) = is_naive t"
  have eq: "filter (\<lambda>x. dt_eq (time_created x) t) xs
      = filter ?Q (filter (\<lambda>x. ?f x = - instant t) xs)" for xs
    by (simp add: dt_eq_iff)
  show ?thesis
    by (simp only: eq sort_key_stable)
qed

lemma sort_by_time_desc_props:
  assumes "sort_by_time_desc evs = Inr out"
  shows "sorted_wrt (\<lambda>a b. dt_lt (time_created a) (time_created b) = Inr False) out"
    and "filter (\<lambda>x. dt_eq (time_created x) t) out = filter (\<lambda>x. dt_eq (time_created x) t) evs"
    and "mset out = mset evs"
proof -
  from sort_by_time_desc_Inr [OF assms]
  have m: "\<not> mixed_keys evs" and o: "out = sort_key (\<lambda>x. - instant (time_created x)) evs"
    by simp_all
  show "sorted_wrt (\<lambda>a b. dt_lt (time_created a) (time_created b) = Inr False) out"
    unfolding o by (rule sort_key_descending [OF m])
  show "filter (\<lambda>x. dt_eq (time_created x) t) out = filter (\<lambda>x. dt_eq (time_created x) t) evs"
    unfolding o by (rule sort_key_keeps_ties)
  show "mset out = mset evs"
    unfolding o by simp
qed

lemma collect_events_Inr:
  "collect_events e log_name max_events important_only event_ids hide = Inr evs \<Longrightarrow>
     \<exists>raws. get_raw_events e log_name max_events = Inr raws
       \<and> sort_by_time_desc (select_events e (ids_filter important_only event_ids) hide raws) = Inr evs"
  by (auto simp: collect_events_def split: if_splits sum.splits)

lemma load_events_from_demo_xml_Inr:
  "load_events_from_demo_xml e path = Inr evs \<Longrightarrow>
     \<exists>els. et_parse e path = Inr els \<and> sort_by_time_desc (demo_events e els) = Inr evs"
  by (auto simp: load_events_from_demo_xml_def split: sum.splits)

text \<open>
  C3. Whenever \<open>collect_events\<close> or the demo-file loader returns events, they are in
  descending order of \<open>time_created\<close> (no event is strictly earlier than one after it),
  they are the events the loop kept, and the events of any one time stand in the order
  in which the loop kept them: the sort is stable.
\<close>

theorem events_sorted_descending_stable:
  "(collect_events e log_name max_events important_only event_ids hide = Inr evs \<longrightarrow>
      sorted_wrt (\<lambda>a b. dt_lt (time_created a) (time_created b) = Inr False) evs
      \<and> (\<exists>raws. get_raw_events e log_name max_events = Inr raws
           \<and> mset evs = mset (select_events e (ids_filter important_only event_ids) hide raws)
           \<and> (\<forall>t. filter (\<lambda>x. dt_eq (time_created x) t) evs
                  = filter (\<lambda>x. dt_eq (time_created x) t)
                      (select_events e (ids_filter important_only event_ids) hide raws))))
   \<and> (load_events_from_demo_xml e path = Inr evs' \<longrightarrow>
      sorted_wrt (\<lambda>a b. dt_lt (time_created a) (time_created b) = Inr False) evs'
      \<and> (\<exists>els. et_parse e path = Inr els
           \<and> mset evs' = mset (demo_events e els)
           \<and> (\<forall>t. filter (\<lambda>x. dt_eq (time_created x) t) evs'
                  = filter (\<lambda>x. dt_eq (time_created x) t) (demo_events e els))))"
proof (intro conjI impI)
  assume c: "collect_events e log_name max_events important_only event_ids hide = Inr evs"
  from collect_events_Inr [OF c] obtain raws
    where r: "get_raw_events e log_name max_events = Inr raws"
      and s: "sort_by_time_desc (select_events e (ids_filter important_only event_ids) hide raws) = Inr evs"
    by blast
  show "sorted_wrt (\<lambda>a b. dt_lt (time_created a) (time_created b) = Inr False) evs"
    by (rule sort_by_time_desc_props(1) [OF s])
  show "\<exists>raws. get_raw_events e log_name max_events = Inr raws
           \<and> mset evs = mset (select_events e (ids_filter important_only event_ids) hide raws)
           \<and> (\<forall>t. filter (\<lambda>x. dt_eq (time_created x) t) evs
                  = filter (\<lambda>x. dt_eq (time_created x) t)
                      (select_events e (ids_filter important_only event_ids) hide raws))"
    using r sort_by_time_desc_props(2,3) [OF s] by blast
next
  assume c: "load_events_from_demo_xml e path = Inr evs'"
  from load_events_from_demo_xml_Inr [OF c] obtain els
    where r: "et_parse e path = Inr els"
      and s: "sort_by_time_desc (demo_events e els) = Inr evs'"
    by blast
  show "sorted_wrt (\<lambda>a b. dt_lt (time_created a) (time_created b) = Inr False) evs'"
    by (rule sort_by_time_desc_props(1) [OF s])
  show "\<exists>els. et_parse e path = Inr els
           \<and> mset evs' = mset (demo_events e els)
           \<and> (\<forall>t. filter (\<lambda>x. dt_eq (time_created x) t) evs'
                  = filter (\<lambda>x. dt_eq (time_created x) t) (demo_events e els))"
    using r sort_by_time_desc_props(2,3) [OF s] by blast
qed

theorem events_sorted_descending_stable_witness:
  "collect_events (sample_env tie_raws []) ''Security'' 500 False None False
     = Inr [mk_event (Aware 1704067205000000 0) 4625 ''second'' ''Logon failure'',
            mk_event (Aware 1704067205000000 3600000000) 4688 ''third'' ''Process created'',
            mk_event (Aware 1704067200000000 0) 4624 ''first'' ''Logon success'']
   \<and> sorted_wrt (\<lambda>a b. dt_lt (time_created a) (time_created b) = Inr False)
        [mk_event (Aware 1704067205000000 0) 4625 ''second'' ''Logon failure'',
         mk_event (Aware 1704067205000000 3600000000) 4688 ''third'' ''Process created'',
         mk_event (Aware 1704067200000000 0) 4624 ''first'' ''Logon success'']
   \<and> load_events_from_demo_xml (sample_env [] demo_elements) ''demo.xml''
     = Inr [\<lparr>time_created = Aware 1704067205000000 0, event_id = 4688, level = [],
              provider = [], machine_name = [], message = [],
              category = ''Process created''\<rparr>,
            \<lparr>time_created = Aware 1704067200000000 0, event_id = 4624,
              level = ''Information'', provider = [], machine_name = [],
              message = ''logon'', category = ''Logon success''\<rparr>]
   \<and> sorted_wrt (\<lambda>a b. dt_lt (time_created a) (time_created b) = Inr False)
        [\<lparr>time_created = Aware 1704067205000000 0, event_id = 4688, level = [],
              provider = [], machine_name = [], message = [],
              category = ''Process created''\<rparr>,
         \<lparr>time_created = Aware 1704067200000000 0, event_id = 4624,
              level = ''Information'', provider = [], machine_name = [],
              message = ''logon'', category = ''Logon success''\<rparr>]"
proof -
  have h1: "collect_events (sample_env tie_raws []) ''Security'' 500 False None False
     = Inr [mk_event (Aware 1704067205000000 0) 4625 ''second'' ''Logon failure'',
            mk_event (Aware 1704067205000000 3600000000) 4688 ''third'' ''Process created'',
            mk_event (Aware 1704067200000000 0) 4624 ''first'' ''Logon success'']"
    by code_simp
  have h2: "load_events_from_demo_xml (sample_env [] demo_elements) ''demo.xml''
     = Inr [\<lparr>time_created = Aware 1704067205000000 0, event_id = 4688, level = [],
              provider = [], machine_name = [], message = [],
              category = ''Process created''\<rparr>,
            \<lparr>time_created = Aware 1704067200000000 0, event_id = 4624,
              level = ''Information'', provider = [], machine_name = [],
              message = ''logon'', category = ''Logon success''\<rparr>]"
    by code_simp
  note c1 = events_sorted_descending_stable [THEN conjunct1, THEN mp, OF h1, THEN conjunct1]
  note c2 = events_sorted_descending_stable [THEN conjunct2, THEN mp, OF h2, THEN conjunct1]
  show ?thesis by (intro conjI h1 c1 h2 c2)
qed

section \<open>The id filter and the suppression rule\<close>

lemma set_select_events_plain:
  "set (select_events e None False raws) = {n. \<exists>raw \<in> set raws. normalize_event e raw = Some n}"
  by (induction raws) (auto simp: in_filter_None split: option.splits)

text \<open>
  C2. With \<open>important_only\<close> and a non-empty list of explicit ids the id filter is exactly
  the set of these ids; with \<open>important_only\<close> and no explicit ids it is the key set of
  the rule table; without \<open>important_only\<close> there is none. The events
  \<open>collect_events\<close> returns are those the loop keeps without any id filter, restricted
  to the ids of the filter, so without a filter every normalized event passes whatever
  its id.
\<close>

theorem collect_events_id_filter:
  "(important_only \<and> event_ids = Some ids \<and> ids \<noteq> [] \<longrightarrow>
      ids_filter important_only event_ids = Some (set ids))
   \<and> (important_only \<and> (event_ids = None \<or> event_ids = Some []) \<longrightarrow>
      ids_filter important_only event_ids = Some (fst ` set EVENT_RULES))
   \<and> (\<not> important_only \<longrightarrow> ids_filter important_only event_ids = None)
   \<and> (collect_events e log_name max_events important_only event_ids hide = Inr evs \<longrightarrow>
      (\<exists>raws. get_raw_events e log_name max_events = Inr raws
         \<and> mset evs =
             filter_mset
               (\<lambda>n. case ids_filter important_only event_ids of
                      None \<Rightarrow> True
                    | Some ids \<Rightarrow> event_id n \<in> ids)
               (mset (select_events e None hide raws))))"
proof (intro conjI impI)
  show "ids_filter important_only event_ids = Some (set ids)"
    if "important_only \<and> event_ids = Some ids \<and> ids \<noteq> []"
    using that by (simp add: ids_filter_def)
  show "ids_filter important_only event_ids = Some (fst ` set EVENT_RULES)"
    if "important_only \<and> (event_ids = None \<or> event_ids = Some [])"
    using that by (auto simp: ids_filter_def IMPORTANT_EVENT_IDS_def)
  show "ids_filter important_only event_ids = None" if "\<not> important_only"
    using that by (simp add: ids_filter_def)
next
  let ?f = "ids_filter important_only event_ids"
  assume c: "collect_events e log_name max_events important_only event_ids hide = Inr evs"
  from collect_events_Inr [OF c] obtain raws
    where r: "get_raw_events e log_name max_events = Inr raws"
      and s: "sort_by_time_desc (select_events e ?f hide raws) = Inr evs"
    by blast
  have "mset evs = mset (select_events e ?f hide raws)"
    by (rule sort_by_time_desc_props(3) [OF s])
  also have "\<dots> = mset (filter (in_filter ?f) (select_events e None hide raws))"
    by (simp only: select_events_in_filter [of e ?f])
  also have "\<dots> = filter_mset (in_filter ?f) (mset (select_events e None hide raws))"
    by simp
  finally have "mset evs = filter_mset (in_filter ?f) (mset (select_events e None hide raws))" .
  then have "mset evs =
             filter_mset
               (\<lambda>n. case ?f of None \<Rightarrow> True | Some ids \<Rightarrow> event_id n \<in> ids)
               (mset (select_events e None hide raws))"
    by (simp add: in_filter_def [abs_def])
  with r show "\<exists>raws. get_raw_events e log_name max_events = Inr raws
         \<and> mset evs =
             filter_mset
               (\<lambda>n. case ?f of None \<Rightarrow> True | Some ids \<Rightarrow> event_id n \<in> ids)
               (mset (select_events e None hide raws))"
    by blast
qed

theorem collect_events_id_filter_witness:
  "ids_filter True (Some [4625]) = Some (set [4625])
   \<and> ids_filter True None = Some (fst ` set EVENT_RULES)
   \<and> ids_filter False (Some [4625]) = None
   \<and> collect_events (sample_env id_raws []) ''Security'' 500 True (Some [4625]) False
       = Inr [mk_event (Aware 1704067200000000 0) 4625 ''b'' ''Logon failure'']
   \<and> select_events (sample_env id_raws []) None False id_raws
       = [mk_event (Aware 1704067200000000 0) 4624 ''a'' ''Logon success'',
          mk_event (Aware 1704067200000000 0) 4625 ''b'' ''Logon failure'',
          mk_event (Aware 1704067200000000 0) 9999 ''c'' ''Other'']
   \<and> mset [mk_event (Aware 1704067200000000 0) 4625 ''b'' ''Logon failure'']
       = filter_mset
           (\<lambda>n. case ids_filter True (Some [4625]) of
                  None \<Rightarrow> True
                | Some ids \<Rightarrow> event_id n \<in> ids)
           (mset (select_events (sample_env id_raws []) None False id_raws))
   \<and> collect_events (sample_env id_raws []) ''Security'' 500 True None False
       = Inr [mk_event (Aware 1704067200000000 0) 4624 ''a'' ''Logon success'',
              mk_event (Aware 1704067200000000 0) 4625 ''b'' ''Logon failure'']"
proof -
  let ?E = "sample_env id_raws []"
  have h1: "True \<and> Some [4625] = Some [4625] \<and> [4625] \<noteq> ([] :: int list)"
    by simp
  note c1 = collect_events_id_filter [THEN conjunct1, THEN mp, OF h1]
  have h2: "True \<and> ((None :: int list option) = None \<or> (None :: int list option) = Some [])"
    by simp
  note c2 = collect_events_id_filter [THEN conjunct2, THEN conjunct1, THEN mp, OF h2]
  have h3: "\<not> False"
    by simp
  note c3 = collect_events_id_filter [where event_ids = "Some [4625]", THEN conjunct2,
      THEN conjunct2, THEN conjunct1, THEN mp, OF h3]
  have h4: "collect_events ?E ''Security'' 500 True (Some [4625]) False
       = Inr [mk_event (Aware 1704067200000000 0) 4625 ''b'' ''Logon failure'']"
    by code_simp
  have g: "get_raw_events ?E ''Security'' 500 = Inr id_raws"
    by code_simp
  from collect_events_id_filter [THEN conjunct2, THEN conjunct2, THEN conjunct2, THEN mp, OF h4]
  obtain raws where "get_raw_events ?E ''Security'' 500 = Inr raws"
    and m: "mset [mk_event (Aware 1704067200000000 0) 4625 ''b'' ''Logon failure'']
       = filter_mset
           (\<lambda>n. case ids_filter True (Some [4625]) of
                  None \<Rightarrow> True
                | Some ids \<Rightarrow> event_id n \<in> ids)
           (mset (select_events ?E None False raws))"
    by blast
  with g have "raws = id_raws"
    by simp
  note c4 = m [unfolded this]
  have s: "select_events ?E None False id_raws
       = [mk_event (Aware 1704067200000000 0) 4624 ''a'' ''Logon success'',
          mk_event (Aware 1704067200000000 0) 4625 ''b'' ''Logon failure'',
          mk_event (Aware 1704067200000000 0) 9999 ''c'' ''Other'']"
    by code_simp
  have d: "collect_events ?E ''Security'' 500 True None False
       = Inr [mk_event (Aware 1704067200000000 0) 4624 ''a'' ''Logon success'',
              mk_event (Aware 1704067200000000 0) 4625 ''b'' ''Logon failure'']"
    by code_simp
  show ?thesis by (intro conjI c1 c2 c3 h4 s c4 d)
qed

text \<open>
  C8. With \<open>hide_system_logons\<close> set, the events \<open>collect_events\<close> returns are those
  the loop keeps without the flag, less exactly the events with the id 4624 whose
  lower-cased message contains \<open>s-1-5-18 system nt authority\<close>; every other event is
  kept, with its multiplicity.
\<close>

theorem hide_system_logons_drops_exactly:
  "collect_events e log_name max_events important_only event_ids True = Inr evs \<longrightarrow>
     (\<exists>raws. get_raw_events e log_name max_events = Inr raws
        \<and> mset evs =
            filter_mset
              (\<lambda>n. \<not> (event_id n = 4624
                       \<and> contains (lower (message n)) ''s-1-5-18 system nt authority''))
              (mset (select_events e (ids_filter important_only event_ids) False raws)))"
proof
  let ?f = "ids_filter important_only event_ids"
  assume c: "collect_events e log_name max_events important_only event_ids True = Inr evs"
  from collect_events_Inr [OF c] obtain raws
    where r: "get_raw_events e log_name max_events = Inr raws"
      and s: "sort_by_time_desc (select_events e ?f True raws) = Inr evs"
    by blast
  have "mset evs = mset (select_events e ?f True raws)"
    by (rule sort_by_time_desc_props(3) [OF s])
  also have "\<dots> = mset (filter (\<lambda>n. \<not> is_system_logon n) (select_events e ?f False raws))"
    by (simp only: select_events_hide)
  also have "\<dots> = filter_mset (\<lambda>n. \<not> is_system_logon n) (mset (select_events e ?f False raws))"
    by simp
  finally have "mset evs
      = filter_mset (\<lambda>n. \<not> is_system_logon n) (mset (select_events e ?f False raws))" .
  then have "mset evs =
            filter_mset
              (\<lambda>n. \<not> (event_id n = 4624
                       \<and> contains (lower (message n)) ''s-1-5-18 system nt authority''))
              (mset (select_events e ?f False raws))"
    by (simp add: is_system_logon_def [abs_def])
  with r show "\<exists>raws. get_raw_events e log_name max_events = Inr raws
        \<and> mset evs =
            filter_mset
              (\<lambda>n. \<not> (event_id n = 4624
                       \<and> contains (lower (message n)) ''s-1-5-18 system nt authority''))
              (mset (select_events e ?f False raws))"
    by blast
qed

theorem hide_system_logons_drops_exactly_witness:
  "collect_events (sample_env logon_raws []) ''Security'' 500 False None True
     = Inr [mk_event (Aware 1704067200000000 0) 4625 ''S-1-5-18 SYSTEM NT AUTHORITY 0x3e7''
              ''Logon failure'',
            mk_event (Aware 1704067200000000 0) 4624 ''S-1-5-21-1004 alice CORP 0x5f2''
              ''Logon success'']
   \<and> select_events (sample_env logon_raws []) (ids_filter False None) False logon_raws
     = [mk_event (Aware 1704067200000000 0) 4624 ''S-1-5-18 SYSTEM NT AUTHORITY 0x3e7''
              ''Logon success'',
        mk_event (Aware 1704067200000000 0) 4625 ''S-1-5-18 SYSTEM NT AUTHORITY 0x3e7''
              ''Logon failure'',
        mk_event (Aware 1704067200000000 0) 4624 ''S-1-5-21-1004 alice CORP 0x5f2''
              ''Logon success'']
   \<and> mset [mk_event (Aware 1704067200000000 0) 4625 ''S-1-5-18 SYSTEM NT AUTHORITY 0x3e7''
              ''Logon failure'',
            mk_event (Aware 1704067200000000 0) 4624 ''S-1-5-21-1004 alice CORP 0x5f2''
              ''Logon success'']
     = filter_mset
         (\<lambda>n. \<not> (event_id n = 4624
                  \<and> contains (lower (message n)) ''s-1-5-18 system nt authority''))
         (mset (select_events (sample_env logon_raws []) (ids_filter False None) False
            logon_raws))"
proof -
  let ?E = "sample_env logon_raws []"
  have h: "collect_events ?E ''Security'' 500 False None True
     = Inr [mk_event (Aware 1704067200000000 0) 4625 ''S-1-5-18 SYSTEM NT AUTHORITY 0x3e7''
              ''Logon failure'',
            mk_event (Aware 1704067200000000 0) 4624 ''S-1-5-21-1004 alice CORP 0x5f2''
              ''Logon success'']"
    by code_simp
  have g: "get_raw_events ?E ''Security'' 500 = Inr logon_raws"
    by code_simp
  from hide_system_logons_drops_exactly [THEN mp, OF h]
  obtain raws where "get_raw_events ?E ''Security'' 500 = Inr raws"
    and m: "mset [mk_event (Aware 1704067200000000 0) 4625 ''S-1-5-18 SYSTEM NT AUTHORITY 0x3e7''
              ''Logon failure'',
            mk_event (Aware 1704067200000000 0) 4624 ''S-1-5-21-1004 alice CORP 0x5f2''
              ''Logon success'']
     = filter_mset
         (\<lambda>n. \<not> (event_id n = 4624
                  \<and> contains (lower (message n)) ''s-1-5-18 system nt authority''))
         (mset (select_events ?E (ids_filter False None) False raws))"
    by blast
  with g have "raws = logon_raws"
    by simp
  note c = m [unfolded this]
  have s: "select_events ?E (ids_filter False None) False logon_raws
     = [mk_event (Aware 1704067200000000 0) 4624 ''S-1-5-18 SYSTEM NT AUTHORITY 0x3e7''
              ''Logon success'',
        mk_event (Aware 1704067200000000 0) 4625 ''S-1-5-18 SYSTEM NT AUTHORITY 0x3e7''
              ''Logon failure'',
        mk_event (Aware 1704067200000000 0) 4624 ''S-1-5-21-1004 alice CORP 0x5f2''
              ''Logon success'']"
    by code_simp
  show ?thesis by (intro conjI h s c)
qed

text \<open>
  C1, for the signature \<open>s-1-5-18 system nt authority\<close>. With \<open>hide_system_logons\<close>
  set, no returned event has the id 4624 and a message that contains this signature,
  case-insensitively; with the flag not set, every normalized event that passes the id
  filter is returned, such an event included.
\<close>

theorem system_logon_suppression:
  "(collect_events e log_name max_events important_only event_ids True = Inr evs
      \<and> n \<in> set evs \<longrightarrow>
      \<not> (event_id n = 4624
           \<and> contains (lower (message n)) ''s-1-5-18 system nt authority''))
   \<and> (collect_events e log_name max_events important_only event_ids False = Inr evs'
      \<and> get_raw_events e log_name max_events = Inr raws
      \<and> raw \<in> set raws
      \<and> normalize_event e raw = Some m
      \<and> (case ids_filter important_only event_ids of
            None \<Rightarrow> True
          | Some ids \<Rightarrow> event_id m \<in> ids) \<longrightarrow>
      m \<in> set evs')"
proof (intro conjI impI)
  let ?f = "ids_filter important_only event_ids"
  assume a: "collect_events e log_name max_events important_only event_ids True = Inr evs
      \<and> n \<in> set evs"
  from collect_events_Inr [OF a [THEN conjunct1]] obtain raws'
    where s: "sort_by_time_desc (select_events e ?f True raws') = Inr evs"
    by blast
  have "set evs = set (select_events e ?f True raws')"
    using sort_by_time_desc_props(3) [OF s] by (rule mset_eq_setD)
  with a have "n \<in> set (filter (\<lambda>n. \<not> is_system_logon n) (select_events e ?f False raws'))"
    by (simp only: select_events_hide)
  then have "\<not> is_system_logon n"
    by simp
  then show "\<not> (event_id n = 4624
           \<and> contains (lower (message n)) ''s-1-5-18 system nt authority'')"
    unfolding is_system_logon_def .
next
  let ?f = "ids_filter important_only event_ids"
  assume a: "collect_events e log_name max_events important_only event_ids False = Inr evs'
      \<and> get_raw_events e log_name max_events = Inr raws
      \<and> raw \<in> set raws
      \<and> normalize_event e raw = Some m
      \<and> (case ids_filter important_only event_ids of
            None \<Rightarrow> True
          | Some ids \<Rightarrow> event_id m \<in> ids)"
  from collect_events_Inr [OF a [THEN conjunct1]] a obtain
    s: "sort_by_time_desc (select_events e ?f False raws) = Inr evs'"
    by auto
  have f: "in_filter ?f m"
    using a by (simp add: in_filter_def)
  have "m \<in> set (select_events e None False raws)"
    unfolding set_select_events_plain using a by blast
  with f have "m \<in> set (filter (in_filter ?f) (select_events e None False raws))"
    by simp
  then have "m \<in> set (select_events e ?f False raws)"
    by (simp only: select_events_in_filter [of e ?f])
  moreover have "set evs' = set (select_events e ?f False raws)"
    using sort_by_time_desc_props(3) [OF s] by (rule mset_eq_setD)
  ultimately show "m \<in> set evs'"
    by simp
qed

theorem system_logon_suppression_witness:
  "collect_events (sample_env logon_raws []) ''Security'' 500 True None True
     = Inr [mk_event (Aware 1704067200000000 0) 4625 ''S-1-5-18 SYSTEM NT AUTHORITY 0x3e7''
              ''Logon failure'',
            mk_event (Aware 1704067200000000 0) 4624 ''S-1-5-21-1004 alice CORP 0x5f2''
              ''Logon success'']
   \<and> \<not> (event_id (mk_event (Aware 1704067200000000 0) 4624 ''S-1-5-21-1004 alice CORP 0x5f2''
              ''Logon success'') = 4624
        \<and> contains (lower (message (mk_event (Aware 1704067200000000 0) 4624
              ''S-1-5-21-1004 alice CORP 0x5f2'' ''Logon success'')))
            ''s-1-5-18 system nt authority'')
   \<and> collect_events (sample_env logon_raws []) ''Security'' 500 True None False
     = Inr [mk_event (Aware 1704067200000000 0) 4624 ''S-1-5-18 SYSTEM NT AUTHORITY 0x3e7''
              ''Logon success'',
            mk_event (Aware 1704067200000000 0) 4625 ''S-1-5-18 SYSTEM NT AUTHORITY 0x3e7''
              ''Logon failure'',
            mk_event (Aware 1704067200000000 0) 4624 ''S-1-5-21-1004 alice CORP 0x5f2''
              ''Logon success'']
   \<and> normalize_event (sample_env logon_raws [])
        (mk_raw (PyInt 4624) (TimeStr ''2024-01-01T00:00:00Z'')
           ''S-1-5-18 SYSTEM NT AUTHORITY 0x3e7'')
     = Some (mk_event (Aware 1704067200000000 0) 4624 ''S-1-5-18 SYSTEM NT AUTHORITY 0x3e7''
              ''Logon success'')
   \<and> mk_event (Aware 1704067200000000 0) 4624 ''S-1-5-18 SYSTEM NT AUTHORITY 0x3e7''
        ''Logon success''
     \<in> set [mk_event (Aware 1704067200000000 0) 4624 ''S-1-5-18 SYSTEM NT AUTHORITY 0x3e7''
              ''Logon success'',
            mk_event (Aware 1704067200000000 0) 4625 ''S-1-5-18 SYSTEM NT AUTHORITY 0x3e7''
              ''Logon failure'',
            mk_event (Aware 1704067200000000 0) 4624 ''S-1-5-21-1004 alice CORP 0x5f2''
              ''Logon success'']"
proof -
  let ?E = "sample_env logon_raws []"
  let ?sys = "mk_event (Aware 1704067200000000 0) 4624 ''S-1-5-18 SYSTEM NT AUTHORITY 0x3e7''
              ''Logon success''"
  let ?fail = "mk_event (Aware 1704067200000000 0) 4625 ''S-1-5-18 SYSTEM NT AUTHORITY 0x3e7''
              ''Logon failure''"
  let ?alice = "mk_event (Aware 1704067200000000 0) 4624 ''S-1-5-21-1004 alice CORP 0x5f2''
              ''Logon success''"
  let ?raw = "mk_raw (PyInt 4624) (TimeStr ''2024-01-01T00:00:00Z'')
           ''S-1-5-18 SYSTEM NT AUTHORITY 0x3e7''"
  have h1: "collect_events ?E ''Security'' 500 True None True = Inr [?fail, ?alice]"
    by code_simp
  have h2: "?alice \<in> set [?fail, ?alice]"
    by simp
  note c1 = system_logon_suppression [THEN conjunct1, THEN mp, OF conjI, OF h1 h2]
  have k1: "collect_events ?E ''Security'' 500 True None False = Inr [?sys, ?fail, ?alice]"
    by code_simp
  have k2: "get_raw_events ?E ''Security'' 500 = Inr logon_raws"
    by code_simp
  have k3: "?raw \<in> set logon_raws"
    by (simp add: logon_raws_def)
  have k4: "normalize_event ?E ?raw = Some ?sys"
    by code_simp
  have k5: "(case ids_filter True None of None \<Rightarrow> True | Some ids \<Rightarrow> event_id ?sys \<in> ids)"
    by code_simp
  have k: "collect_events ?E ''Security'' 500 True None False = Inr [?sys, ?fail, ?alice]
      \<and> get_raw_events ?E ''Security'' 500 = Inr logon_raws
      \<and> ?raw \<in> set logon_raws
      \<and> normalize_event ?E ?raw = Some ?sys
      \<and> (case ids_filter True None of None \<Rightarrow> True | Some ids \<Rightarrow> event_id ?sys \<in> ids)"
    by (intro conjI k1 k2 k3 k4 k5)
  have c2: "?sys \<in> set [?sys, ?fail, ?alice]"
    by (rule system_logon_suppression [THEN conjunct2, THEN mp, OF k])
  show ?thesis by (intro conjI h1 c1 k1 k4 c2)
qed

text \<open>
  For the signature \<open>S-1-5-18 NT AUTHORITY\SYSTEM\<close> the exclusion does not hold: a
  logon with the id 4624 whose message is this signature is returned with the flag set.
\<close>

theorem system_logon_suppression_counterexample:
  "collect_events
     (sample_env [mk_raw (PyInt 4624) (TimeStr ''2024-01-01T00:00:00Z'') nt_authority_system] [])
     ''Security'' 500 True None True
     = Inr [mk_event (Aware 1704067200000000 0) 4624 nt_authority_system ''Logon success'']
   \<and> event_id (mk_event (Aware 1704067200000000 0) 4624 nt_authority_system ''Logon success'')
     = 4624
   \<and> contains
       (lower (message (mk_event (Aware 1704067200000000 0) 4624 nt_authority_system
          ''Logon success'')))
       (lower nt_authority_system)"
proof (intro conjI)
  show "collect_events
     (sample_env [mk_raw (PyInt 4624) (TimeStr ''2024-01-01T00:00:00Z'') nt_authority_system] [])
     ''Security'' 500 True None True
     = Inr [mk_event (Aware 1704067200000000 0) 4624 nt_authority_system ''Logon success'']"
    by code_simp
  show "event_id (mk_event (Aware 1704067200000000 0) 4624 nt_authority_system ''Logon success'')
     = 4624"
    by (simp add: mk_event_def)
  show "contains
       (lower (message (mk_event (Aware 1704067200000000 0) 4624 nt_authority_system
          ''Logon success'')))
       (lower nt_authority_system)"
    by code_simp
qed

section \<open>Newlines and mixed timestamps\<close>

text \<open>
  C4. The demo-file loader stores the text of the \<open>Message\<close> element as it is: a message
  of three lines keeps its two LF, where the record normalizer turns the same message
  into \<open>a b c\<close>.
\<close>

theorem demo_loader_keeps_newlines:
  "load_events_from_demo_xml (sample_env [] multiline_elements) ''demo.xml''
     = Inr [\<lparr>time_created = Naive 0, event_id = 4624, level = [], provider = [],
              machine_name = [],
              message = [CHR ''a'', CHR 0x0A, CHR ''b'', CHR 0x0A, CHR ''c''],
              category = ''Logon success''\<rparr>]
   \<and> map_option message
        (normalize_event (sample_env [] [])
           (mk_raw (PyInt 4624) TimeOther
              [CHR ''a'', CHR 0x0A, CHR ''b'', CHR 0x0A, CHR ''c'']))
     = Some ''a b c''"
proof (intro conjI)
  show "load_events_from_demo_xml (sample_env [] multiline_elements) ''demo.xml''
     = Inr [\<lparr>time_created = Naive 0, event_id = 4624, level = [], provider = [],
              machine_name = [],
              message = [CHR ''a'', CHR 0x0A, CHR ''b'', CHR 0x0A, CHR ''c''],
              category = ''Logon success''\<rparr>]"
    by code_simp
  show "map_option message
        (normalize_event (sample_env [] [])
           (mk_raw (PyInt 4624) TimeOther
              [CHR ''a'', CHR 0x0A, CHR ''b'', CHR 0x0A, CHR ''c'']))
     = Some ''a b c''"
    by code_simp
qed


text \<open>
  On Windows, with a source that answers and kept events whose times are all naive or
  all aware, \<open>collect_events\<close> returns.
\<close>

lemma collect_events_returns:
  "is_windows e \<Longrightarrow> get_raw_events e log_name max_events = Inr raws \<Longrightarrow>
     \<not> mixed_keys (select_events e (ids_filter important_only event_ids) hide raws) \<Longrightarrow>
     \<exists>evs. collect_events e log_name max_events important_only event_ids hide = Inr evs"
  by (simp add: collect_events_def sort_by_time_desc_def)

end
